theory Spec2Isabelle
  imports Main "HOL-Library.Sublist"
begin

section \<open>Go values shared by both packages\<close>

text \<open>
  A Go \<^verbatim>\<open>error\<close> is an interface value; \<^verbatim>\<open>nil\<close> is \<open>None\<close>. Two kinds of
  non-nil errors are told apart: the ones built by \<^verbatim>\<open>errors.New\<close> (also what
  \<^verbatim>\<open>fmt.Errorf\<close> returns for a format without \<^verbatim>\<open>%w\<close>), which carry only their text,
  and every other error value, kept opaque in the type parameter.
\<close>

datatype 'e error = ErrorsNew string | OtherError 'e

section \<open>Package crawler: the existing item\<close>

text \<open>\<^verbatim>\<open>indexer.Reference\<close>: the name and the parent under which a hash was found.\<close>

record reference =
  Name :: string
  ParentHash :: string

text \<open>
  \<^verbatim>\<open>metadata\<close> is a Go map from property names to arbitrary values. The two kinds of
  value that \<^verbatim>\<open>updateIndex\<close> stores are a reference slice (which may be the nil slice,
  \<open>None\<close>) and a string.
\<close>

datatype prop_value = ReferencesValue "reference list option" | StringValue string

type_synonym metadata = "string \<rightharpoonup> prop_value"

text \<open>
  The indexer is an interface whose implementation lies outside the package. Every call
  made on it is appended to a log, and what a call returns may depend on the context, on
  the arguments and on all the calls made before.
\<close>

datatype index_call = IndexItemCall string string metadata | GetReferencesCall string

record ('c, 'e) Indexer =
  IndexItem :: "index_call list \<Rightarrow> 'c \<Rightarrow> string \<Rightarrow> string \<Rightarrow> metadata \<Rightarrow> 'e error option"
  GetReferences ::
    "index_call list \<Rightarrow> 'c \<Rightarrow> string \<Rightarrow> reference list option \<times> string \<times> 'e error option"

record ('c, 'e) Indexable =
  Hash :: string
  Name :: string
  ParentHash :: string
  Indexer :: "('c, 'e) Indexer"

text \<open>
  \<^verbatim>\<open>existingItem\<close> embeds \<^verbatim>\<open>*Indexable\<close>, so the fields of the \<^verbatim>\<open>Indexable\<close> are
  promoted: the record extends \<open>Indexable\<close>. The slice \<^verbatim>\<open>references\<close> is \<open>None\<close> when it
  is nil and \<open>Some rs\<close> otherwise, so that the nil slice and the empty slice differ.
\<close>

record ('c, 'e) existingItem = "('c, 'e) Indexable" +
  exists :: bool
  references :: "reference list option"
  itemType :: string

text \<open>
  The \<^verbatim>\<open>for ... range\<close> loop of \<^verbatim>\<open>updateReferences\<close>: it leaves the function at the
  first reference whose parent hash is the item's; \<open>True\<close> stands for that early return.
\<close>

primrec updateReferences_loop :: "string \<Rightarrow> reference list \<Rightarrow> bool" where
  "updateReferences_loop p [] = False"
| "updateReferences_loop p (r # rs) =
     (if reference.ParentHash r = p then True else updateReferences_loop p rs)"

definition updateReferences :: "('c, 'e) existingItem \<Rightarrow> ('c, 'e) existingItem" where
  "updateReferences i =
     (case references i of
        None \<Rightarrow> i\<lparr>references := Some []\<rparr>
      | Some rs \<Rightarrow>
          if ParentHash i = [] then i
          else if updateReferences_loop (ParentHash i) rs then i
          else i\<lparr>references :=
                  Some (rs @ [\<lparr>reference.Name = Name i, reference.ParentHash = ParentHash i\<rparr>])\<rparr>)"

text \<open>
  \<^verbatim>\<open>updateIndex\<close> builds the properties and calls \<^verbatim>\<open>IndexItem\<close> once. The string
  returned by \<^verbatim>\<open>nowISO()\<close> is a parameter. The result is the error of the call and the
  log with the call appended.
\<close>

definition updateIndex ::
  "string \<Rightarrow> 'c \<Rightarrow> ('c, 'e) existingItem \<Rightarrow> index_call list \<Rightarrow> 'e error option \<times> index_call list"
where
  "updateIndex nowISO ctx i log =
     (let properties = [''references'' \<mapsto> ReferencesValue (references i),
                        ''last-seen'' \<mapsto> StringValue nowISO]
      in (IndexItem (Indexer i) log ctx (itemType i) (Hash i) properties,
          log @ [IndexItemCall (itemType i) (Hash i) properties]))"

definition update ::
  "string \<Rightarrow> 'c \<Rightarrow> ('c, 'e) existingItem \<Rightarrow> index_call list \<Rightarrow>
     'e error option \<times> ('c, 'e) existingItem \<times> index_call list"
where
  "update nowISO ctx i log =
     (let i' = updateReferences i
      in if exists i'
         then (case updateIndex nowISO ctx i' log of (err, log') \<Rightarrow> (err, i', log'))
         else (None, i', log))"

definition getExistingItem ::
  "'c \<Rightarrow> ('c, 'e) Indexable \<Rightarrow> index_call list \<Rightarrow>
     ('e error + ('c, 'e) existingItem) \<times> index_call list"
where
  "getExistingItem ctx i log =
     (case GetReferences (Indexer i) log ctx (Hash i) of
        (refs, ty, err) \<Rightarrow>
          (case err of
             Some e \<Rightarrow> (Inl e, log @ [GetReferencesCall (Hash i)])
           | None \<Rightarrow>
               (Inr (Indexable.extend i (existingItem.fields (refs \<noteq> None) refs ty)),
                log @ [GetReferencesCall (Hash i)])))"

text \<open>
  \<^verbatim>\<open>skipItem\<close> is a method defined elsewhere in the package and called on the item; it
  is a parameter here.
\<close>

definition shouldCrawl :: "(('c, 'e) existingItem \<Rightarrow> bool) \<Rightarrow> ('c, 'e) existingItem \<Rightarrow> bool" where
  "shouldCrawl skipItem i = (\<not> skipItem i \<or> \<not> exists i)"

text \<open>The entries of a reference slice; the nil slice has none.\<close>

definition entries :: "reference list option \<Rightarrow> reference list" where
  "entries rs = (case rs of None \<Rightarrow> [] | Some xs \<Rightarrow> xs)"

section \<open>Package queue: the worker\<close>

text \<open>
  A handler either returns an error value or panics. The value of a panic is what
  \<^verbatim>\<open>recover()\<close> hands to the deferred function while the panic is in progress: nil, a
  string, an error, or a value of any other type. It is nil (\<open>PanicNil\<close>) when the handler
  called \<^verbatim>\<open>panic(nil)\<close> under the semantics before Go 1.21, which a module whose \<^verbatim>\<open>go\<close>
  directive is at most 1.20 keeps; from Go 1.21 on such a panic is recovered as a runtime
  error, that is as a \<open>PanicError\<close>.
\<close>

datatype ('e, 'p) panic_value =
  PanicNil | PanicString string | PanicError "'e error" | PanicOther 'p

datatype ('e, 'p) outcome = Returns "'e error option" | Panics "('e, 'p) panic_value"

text \<open>
  Of an \<^verbatim>\<open>amqp.Delivery\<close> the worker reads the body and calls \<^verbatim>\<open>Ack(multiple)\<close> or
  \<^verbatim>\<open>Reject(requeue)\<close>. The calls made on a delivery are logged in \<open>calls\<close>, in order.
\<close>

datatype delivery_call = Ack bool | Reject bool

record Delivery =
  Body :: string
  calls :: "delivery_call list"

text \<open>
  The error result of \<^verbatim>\<open>Queue.Consume\<close>; the deliveries of the stream it returns arrive
  through the \<^verbatim>\<open>select\<close> of \<^verbatim>\<open>Work\<close>.
\<close>

record 'e Queue =
  Consume :: "'e error option"

text \<open>
  \<open>ErrChan\<close> holds the values sent on the channel so far, oldest first. The handler
  \<open>Func\<close> is given the context and the delivery of the message.
\<close>

record ('c, 'e, 'p) Worker =
  ErrChan :: "'e error option list"
  Func :: "'c \<Rightarrow> Delivery \<Rightarrow> ('e, 'p) outcome"
  Queue :: "'e Queue"

text \<open>
  \<^verbatim>\<open>recoverPanic\<close> rejects the message and turns the panic value into an error. The
  formatting of a value by \<^verbatim>\<open>%v\<close> is the parameter \<open>fmt_v\<close>. A nil value matches
  neither \<^verbatim>\<open>case string\<close> nor \<^verbatim>\<open>case error\<close> of the type switch, so it takes the
  \<^verbatim>\<open>default\<close> branch, where \<^verbatim>\<open>%v\<close> prints it as \<^verbatim>\<open><nil>\<close>.
\<close>

definition recoverPanic ::
  "('p \<Rightarrow> string) \<Rightarrow> Delivery \<Rightarrow> ('e, 'p) panic_value \<Rightarrow> 'e error option \<times> Delivery"
where
  "recoverPanic fmt_v m r =
     (let m' = m\<lparr>calls := calls m @ [Reject False]\<rparr>
      in (case r of
            PanicString x \<Rightarrow> (Some (ErrorsNew x), m')
          | PanicError x \<Rightarrow> (Some x, m')
          | PanicOther v \<Rightarrow> (Some (ErrorsNew (''Unassertable panic error: '' @ fmt_v v)), m')
          | PanicNil \<Rightarrow> (Some (ErrorsNew (''Unassertable panic error: '' @ ''<nil>'')), m')))"

text \<open>
  The statements of \<^verbatim>\<open>Process\<close> after the \<^verbatim>\<open>defer\<close>: a panic of the handler leaves the
  body at once, before any call on the delivery. The calls of \<^verbatim>\<open>log.Printf\<close> are left
  out, here and in \<^verbatim>\<open>recoverPanic\<close>.
\<close>

definition Process_body ::
  "'c \<Rightarrow> ('c, 'e, 'p) Worker \<Rightarrow> Delivery \<Rightarrow> ('e, 'p) outcome \<times> Delivery"
where
  "Process_body ctx w m =
     (case Func w ctx m of
        Panics r \<Rightarrow> (Panics r, m)
      | Returns err \<Rightarrow>
          (if err \<noteq> None then (Returns err, m\<lparr>calls := calls m @ [Reject False]\<rparr>)
           else (Returns err, m\<lparr>calls := calls m @ [Ack False]\<rparr>)))"

text \<open>
  The deferred function runs when the body is left, whichever way, and calls
  \<^verbatim>\<open>recover()\<close>. After a normal return \<^verbatim>\<open>recover()\<close> is nil and the result of the body
  stands. After a panic \<^verbatim>\<open>recover()\<close> stops the panic and gives its value \<open>r\<close>: when
  \<^verbatim>\<open>r != nil\<close> the named result \<^verbatim>\<open>err\<close> becomes the error of \<^verbatim>\<open>recoverPanic\<close>; when
  \<open>r\<close> is nil \<^verbatim>\<open>recoverPanic\<close> is not called and \<^verbatim>\<open>err\<close> keeps the nil it had when the
  handler panicked, the assignment of the handler's result not having taken place.
\<close>

definition Process ::
  "('p \<Rightarrow> string) \<Rightarrow> 'c \<Rightarrow> ('c, 'e, 'p) Worker \<Rightarrow> Delivery \<Rightarrow> ('e, 'p) outcome \<times> Delivery"
where
  "Process fmt_v ctx w m =
     (case Process_body ctx w m of
        (Panics r, m') \<Rightarrow>
          (if r \<noteq> PanicNil
           then (case recoverPanic fmt_v m' r of (err, m'') \<Rightarrow> (Returns err, m''))
           else (Returns None, m'))
      | (Returns err, m') \<Rightarrow> (Returns err, m'))"

text \<open>
  The loop of \<^verbatim>\<open>Work\<close> runs over the cases its \<^verbatim>\<open>select\<close> takes, in order: the context
  is done (with the value of \<^verbatim>\<open>ctx.Err()\<close>), or a delivery arrives. When no case is left
  the loop waits and \<^verbatim>\<open>Work\<close> does not return. A panic that left \<^verbatim>\<open>Process\<close> would
  leave \<^verbatim>\<open>Work\<close> too. The deliveries handled so far are collected beside the worker.
\<close>

datatype 'e select_case = CtxDone "'e error option" | Msg Delivery

datatype ('e, 'p) work_result =
  WorkReturns "'e error option" | WorkWaits | WorkPanics "('e, 'p) panic_value"

fun Work_loop ::
  "('p \<Rightarrow> string) \<Rightarrow> 'c \<Rightarrow> ('c, 'e, 'p) Worker \<Rightarrow> Delivery list \<Rightarrow> 'e select_case list \<Rightarrow>
     ('e, 'p) work_result \<times> ('c, 'e, 'p) Worker \<times> Delivery list"
where
  "Work_loop fmt_v ctx w ds [] = (WorkWaits, w, ds)"
| "Work_loop fmt_v ctx w ds (CtxDone e # cs) = (WorkReturns e, w, ds)"
| "Work_loop fmt_v ctx w ds (Msg msg # cs) =
     (case Process fmt_v ctx w msg of
        (Returns err, m') \<Rightarrow> Work_loop fmt_v ctx (w\<lparr>ErrChan := ErrChan w @ [err]\<rparr>) (ds @ [m']) cs
      | (Panics r, m') \<Rightarrow> (WorkPanics r, w, ds @ [m']))"

definition Work ::
  "('p \<Rightarrow> string) \<Rightarrow> 'c \<Rightarrow> ('c, 'e, 'p) Worker \<Rightarrow> 'e select_case list \<Rightarrow>
     ('e, 'p) work_result \<times> ('c, 'e, 'p) Worker \<times> Delivery list"
where
  "Work fmt_v ctx w cs =
     (case Consume (Queue w) of
        Some err \<Rightarrow> (WorkReturns (Some err), w, [])
      | None \<Rightarrow> Work_loop fmt_v ctx w [] cs)"

section \<open>Concrete items, indexers and workers\<close>

text \<open>
  An indexer that knows a hash with no references yet, one that does not know the hash,
  and one whose lookup fails.
\<close>

definition indexer_known :: "(unit, unit) Indexer" where
  "indexer_known =
     \<lparr>IndexItem = (\<lambda>log ctx ty h props. None),
      GetReferences = (\<lambda>log ctx h. (Some [], ''file'', None))\<rparr>"

definition indexer_unknown :: "(unit, unit) Indexer" where
  "indexer_unknown =
     \<lparr>IndexItem = (\<lambda>log ctx ty h props. None),
      GetReferences = (\<lambda>log ctx h. (None, [], None))\<rparr>"

definition indexer_failing :: "(unit, unit) Indexer" where
  "indexer_failing =
     \<lparr>IndexItem = (\<lambda>log ctx ty h props. Some (ErrorsNew ''index down'')),
      GetReferences = (\<lambda>log ctx h. (None, [], Some (ErrorsNew ''index down'')))\<rparr>"

definition candidate :: "(unit, unit) Indexer \<Rightarrow> (unit, unit) Indexable" where
  "candidate ix = \<lparr>Hash = ''H'', Name = ''n'', ParentHash = ''P'', Indexer = ix\<rparr>"

text \<open>An item found as \<open>n\<close> inside \<open>P\<close> whose reference slice is nil.\<close>

definition new_item :: "(unit, unit) existingItem" where
  "new_item =
     \<lparr>Hash = ''H'', Name = ''n'', ParentHash = ''P'', Indexer = indexer_unknown,
      exists = False, references = None, itemType = []\<rparr>"

text \<open>An indexed item, found again inside \<open>P\<close> under another name than the recorded one.\<close>

definition seen_item :: "(unit, unit) existingItem" where
  "seen_item =
     \<lparr>Hash = ''H'', Name = ''n'', ParentHash = ''P'', Indexer = indexer_known,
      exists = True,
      references = Some [\<lparr>reference.Name = ''old'', reference.ParentHash = ''P''\<rparr>],
      itemType = ''file''\<rparr>"

definition fmt_bool :: "bool \<Rightarrow> string" where
  "fmt_bool b = (if b then ''true'' else ''false'')"

definition worker_of :: "(unit \<Rightarrow> Delivery \<Rightarrow> (unit, bool) outcome) \<Rightarrow> (unit, unit, bool) Worker" where
  "worker_of f = \<lparr>ErrChan = [], Func = f, Queue = \<lparr>Consume = None\<rparr>\<rparr>"

definition job :: Delivery where
  "job = \<lparr>Body = ''job'', calls = []\<rparr>"


section \<open>The reference merge\<close>

lemma updateReferences_loop_iff:
  "updateReferences_loop p rs = (p \<in> set (map reference.ParentHash rs))"
  by (induction rs) auto

lemma updateReferences_only_references:
  "updateReferences i = i\<lparr>references := references (updateReferences i)\<rparr>"
  by (simp add: updateReferences_def split: option.splits)

lemma updateReferences_nil:
  "references i = None \<Longrightarrow> references (updateReferences i) = Some []"
  by (simp add: updateReferences_def)

lemma updateReferences_root:
  "references i = Some rs \<Longrightarrow> ParentHash i = [] \<Longrightarrow> updateReferences i = i"
  by (simp add: updateReferences_def)

lemma updateReferences_present:
  "references i = Some rs \<Longrightarrow> ParentHash i \<in> set (map reference.ParentHash rs) \<Longrightarrow>
     updateReferences i = i"
  by (simp add: updateReferences_def updateReferences_loop_iff)

lemma updateReferences_append:
  "references i = Some rs \<Longrightarrow> ParentHash i \<noteq> [] \<Longrightarrow>
   ParentHash i \<notin> set (map reference.ParentHash rs) \<Longrightarrow>
     references (updateReferences i) =
       Some (rs @ [\<lparr>reference.Name = Name i, reference.ParentHash = ParentHash i\<rparr>])"
  by (simp add: updateReferences_def updateReferences_loop_iff)

text \<open>On an item whose reference slice is not nil, a second merge changes nothing.\<close>

lemma updateReferences_idem_non_nil:
  "references i \<noteq> None \<Longrightarrow> updateReferences (updateReferences i) = updateReferences i"
  by (auto simp add: updateReferences_def updateReferences_loop_iff split: option.splits)

text \<open>
  C1. On an item whose reference slice is nil the merge should leave the empty slice when
  the parent hash is empty, and the single reference \<open>{Name, ParentHash}\<close> when it is not.
  The code returns right after it has initialised the slice: for the item \<open>new_item\<close>,
  found as \<open>n\<close> inside \<open>P\<close>, the slice is empty after the call and the reference is not
  recorded.
\<close>

theorem updateReferences_nil_drops_reference:
  "references new_item = None \<and> ParentHash new_item = ''P'' \<and>
   references (updateReferences new_item) = Some [] \<and>
   references (updateReferences new_item) \<noteq>
     Some [\<lparr>reference.Name = Name new_item, reference.ParentHash = ParentHash new_item\<rparr>]"
  by (simp add: updateReferences_def new_item_def)

text \<open>
  C7. The merge should be idempotent. On \<open>new_item\<close> the first call leaves the empty
  slice and the second call appends the reference, so two calls do not give what one
  call gives.
\<close>

theorem updateReferences_twice_differs:
  "references (updateReferences new_item) = Some [] \<and>
   references (updateReferences (updateReferences new_item)) =
     Some [\<lparr>reference.Name = ''n'', reference.ParentHash = ''P''\<rparr>] \<and>
   updateReferences (updateReferences new_item) \<noteq> updateReferences new_item"
proof -
  have one: "references (updateReferences new_item) = Some []"
    by (simp add: updateReferences_def new_item_def)
  have two: "references (updateReferences (updateReferences new_item)) =
      Some [\<lparr>reference.Name = ''n'', reference.ParentHash = ''P''\<rparr>]"
    by (simp add: updateReferences_def new_item_def)
  from one two have "updateReferences (updateReferences new_item) \<noteq> updateReferences new_item"
    by auto
  with one two show ?thesis by simp
qed

text \<open>
  C9. When no two references of the item have the same parent hash, none have after the
  merge either. When a reference with the item's parent hash is already there, the merge
  leaves the slice as it is, whatever the item's name: no second entry is added and the
  recorded name stays.
\<close>

theorem updateReferences_unique_parents:
  "(distinct (map reference.ParentHash (entries (references i))) \<longrightarrow>
      distinct (map reference.ParentHash (entries (references (updateReferences i))))) \<and>
   (\<forall>rs r. references i = Some rs \<and> r \<in> set rs \<and> reference.ParentHash r = ParentHash i \<longrightarrow>
      references (updateReferences i) = Some rs)"
proof (intro conjI allI impI)
  assume d: "distinct (map reference.ParentHash (entries (references i)))"
  show "distinct (map reference.ParentHash (entries (references (updateReferences i))))"
  proof (cases "references i")
    case None
    then show ?thesis by (simp add: updateReferences_def entries_def)
  next
    case (Some rs)
    with d have "distinct (map reference.ParentHash rs)" by (simp add: entries_def)
    with Some show ?thesis
      by (simp add: updateReferences_def entries_def updateReferences_loop_iff)
  qed
next
  fix rs r
  assume a: "references i = Some rs \<and> r \<in> set rs \<and> reference.ParentHash r = ParentHash i"
  then have "ParentHash i \<in> set (map reference.ParentHash rs)" by force
  with a show "references (updateReferences i) = Some rs"
    by (simp add: updateReferences_present)
qed

theorem updateReferences_unique_parents_witness:
  "distinct (map reference.ParentHash (entries (references seen_item))) \<and>
   references seen_item = Some [\<lparr>reference.Name = ''old'', reference.ParentHash = ''P''\<rparr>] \<and>
   ParentHash seen_item = ''P'' \<and> Name seen_item = ''n'' \<and>
   distinct (map reference.ParentHash (entries (references (updateReferences seen_item)))) \<and>
   references (updateReferences seen_item) =
     Some [\<lparr>reference.Name = ''old'', reference.ParentHash = ''P''\<rparr>]"
proof -
  let ?r = "\<lparr>reference.Name = ''old'', reference.ParentHash = ''P''\<rparr>"
  have d: "distinct (map reference.ParentHash (entries (references seen_item)))"
    by (simp add: seen_item_def entries_def)
  have h: "references seen_item = Some [?r] \<and> ?r \<in> set [?r] \<and>
      reference.ParentHash ?r = ParentHash seen_item"
    by (simp add: seen_item_def)
  from updateReferences_unique_parents [of seen_item] d h
  have "distinct (map reference.ParentHash (entries (references (updateReferences seen_item))))"
    and "references (updateReferences seen_item) = Some [?r]"
    by blast+
  with d show ?thesis by (simp add: seen_item_def)
qed

text \<open>
  C10. The merge changes the field \<open>references\<close> only: \<open>exists\<close>, \<open>itemType\<close> and the
  fields of the embedded \<open>Indexable\<close> are as before, and the references that were there
  are a prefix of the references after the call.
\<close>

theorem updateReferences_frame:
  "exists (updateReferences i) = exists i \<and>
   itemType (updateReferences i) = itemType i \<and>
   Hash (updateReferences i) = Hash i \<and>
   Name (updateReferences i) = Name i \<and>
   ParentHash (updateReferences i) = ParentHash i \<and>
   Indexer (updateReferences i) = Indexer i \<and>
   updateReferences i = i\<lparr>references := references (updateReferences i)\<rparr> \<and>
   prefix (entries (references i)) (entries (references (updateReferences i)))"
  by (simp add: updateReferences_def entries_def split: option.splits)

section \<open>Reconciling with the index\<close>

text \<open>
  C4. \<open>update\<close> always merges the reference first. When the item exists it then makes one
  call of \<open>IndexItem\<close>, with the item's type and hash and with the properties
  \<open>references\<close> (the merged references) and \<open>last-seen\<close> (the time), and returns what that
  call returns. When the item does not exist the log of calls is as before and the result
  is nil.
\<close>

theorem update_reconciles:
  "update nowISO ctx i log =
     (if exists i
      then (IndexItem (Indexer i) log ctx (itemType i) (Hash i)
              [''references'' \<mapsto> ReferencesValue (references (updateReferences i)),
               ''last-seen'' \<mapsto> StringValue nowISO],
            updateReferences i,
            log @ [IndexItemCall (itemType i) (Hash i)
                     [''references'' \<mapsto> ReferencesValue (references (updateReferences i)),
                      ''last-seen'' \<mapsto> StringValue nowISO]])
      else (None, updateReferences i, log))"
proof -
  have "exists (updateReferences i) = exists i" "itemType (updateReferences i) = itemType i"
    "Hash (updateReferences i) = Hash i" "Indexer (updateReferences i) = Indexer i"
    by (simp_all add: updateReferences_def split: option.splits)
  then show ?thesis
    by (simp add: update_def updateIndex_def Let_def)
qed

text \<open>
  C8. \<open>getExistingItem\<close> fails exactly when \<open>GetReferences\<close> returns an error, and with
  that error. Otherwise \<open>exists\<close> of the item it returns is true exactly when the slice
  returned by \<open>GetReferences\<close> is not nil.
\<close>

theorem getExistingItem_result:
  "GetReferences (Indexer i) log ctx (Hash i) = (refs, ty, err) \<Longrightarrow>
   ((\<exists>e. fst (getExistingItem ctx i log) = Inl e) \<longleftrightarrow> err \<noteq> None) \<and>
   (\<forall>e. err = Some e \<longrightarrow> fst (getExistingItem ctx i log) = Inl e) \<and>
   (err = None \<longrightarrow>
      (\<exists>item. fst (getExistingItem ctx i log) = Inr item \<and>
         exists item = (refs \<noteq> None) \<and> references item = refs \<and> itemType item = ty \<and>
         Indexable.truncate item = i))"
  by (auto simp add: getExistingItem_def Indexable.extend_def Indexable.truncate_def
      existingItem.fields_def split: option.splits)

theorem getExistingItem_result_witness:
  "fst (getExistingItem () (candidate indexer_failing) []) = Inl (ErrorsNew ''index down'') \<and>
   (\<exists>item. fst (getExistingItem () (candidate indexer_known) []) = Inr item \<and>
      exists item \<and> references item = Some []) \<and>
   (\<exists>item. fst (getExistingItem () (candidate indexer_unknown) []) = Inr item \<and>
      \<not> exists item \<and> references item = None)"
proof -
  have f: "GetReferences (Indexer (candidate indexer_failing)) [] ()
      (Hash (candidate indexer_failing)) = (None, [], Some (ErrorsNew ''index down''))"
    by (simp add: candidate_def indexer_failing_def)
  have k: "GetReferences (Indexer (candidate indexer_known)) [] ()
      (Hash (candidate indexer_known)) = (Some [], ''file'', None)"
    by (simp add: candidate_def indexer_known_def)
  have u: "GetReferences (Indexer (candidate indexer_unknown)) [] ()
      (Hash (candidate indexer_unknown)) = (None, [], None)"
    by (simp add: candidate_def indexer_unknown_def)
  from getExistingItem_result [OF f]
  have 1: "fst (getExistingItem () (candidate indexer_failing) []) = Inl (ErrorsNew ''index down'')"
    by simp
  from getExistingItem_result [OF k]
  have 2: "\<exists>item. fst (getExistingItem () (candidate indexer_known) []) = Inr item \<and>
      exists item \<and> references item = Some []"
    by auto
  from getExistingItem_result [OF u]
  have 3: "\<exists>item. fst (getExistingItem () (candidate indexer_unknown) []) = Inr item \<and>
      \<not> exists item \<and> references item = None"
    by auto
  from 1 2 3 show ?thesis by simp
qed

text \<open>
  C6. \<open>shouldCrawl\<close> is true unless the item is to be skipped and exists: it is true for
  every item that does not exist, and for an existing item it is the negation of
  \<open>skipItem\<close>.
\<close>

theorem shouldCrawl_policy:
  "shouldCrawl skipItem i = (\<not> (skipItem i \<and> exists i)) \<and>
   (\<not> exists i \<longrightarrow> shouldCrawl skipItem i) \<and>
   (exists i \<longrightarrow> shouldCrawl skipItem i = (\<not> skipItem i))"
  by (simp add: shouldCrawl_def)

theorem shouldCrawl_policy_witness:
  "\<not> exists new_item \<and> shouldCrawl (\<lambda>x. True) new_item \<and>
   exists seen_item \<and> \<not> shouldCrawl (\<lambda>x. True) seen_item \<and> shouldCrawl (\<lambda>x. False) seen_item"
proof -
  have n: "\<not> exists new_item" by (simp add: new_item_def)
  have s: "exists seen_item" by (simp add: seen_item_def)
  from shouldCrawl_policy [of "\<lambda>x. True" new_item] n
  have 1: "shouldCrawl (\<lambda>x. True) new_item" by simp
  from shouldCrawl_policy [of "\<lambda>x. True" seen_item] s
  have 2: "\<not> shouldCrawl (\<lambda>x. True) seen_item" by simp
  from shouldCrawl_policy [of "\<lambda>x. False" seen_item] s
  have 3: "shouldCrawl (\<lambda>x. False) seen_item" by simp
  from n s 1 2 3 show ?thesis by simp
qed

section \<open>Processing a message\<close>









text \<open>
  C5. When the handler returns nil the delivery is acknowledged, and when it returns an
  error \<open>E\<close> the delivery is rejected without requeue; in both cases the value the handler
  returned is what \<open>Work\<close> sends on the error channel.
\<close>

theorem Process_normal_return:
  "Func w ctx m = Returns err \<Longrightarrow>
   (err = None \<longrightarrow>
      Process fmt_v ctx w m = (Returns None, m\<lparr>calls := calls m @ [Ack False]\<rparr>)) \<and>
   (\<forall>E. err = Some E \<longrightarrow>
      Process fmt_v ctx w m = (Returns (Some E), m\<lparr>calls := calls m @ [Reject False]\<rparr>)) \<and>
   Work_loop fmt_v ctx w ds (Msg m # cs) =
     Work_loop fmt_v ctx (w\<lparr>ErrChan := ErrChan w @ [err]\<rparr>)
       (ds @ [snd (Process fmt_v ctx w m)]) cs \<and>
   ErrChan (fst (snd (Work_loop fmt_v ctx w ds [Msg m, CtxDone d]))) = ErrChan w @ [err]"
  by (simp add: Process_def Process_body_def)

theorem Process_normal_return_witness:
  "Process fmt_bool () (worker_of (\<lambda>c d. Returns None)) job =
     (Returns None, job\<lparr>calls := [Ack False]\<rparr>) \<and>
   ErrChan (fst (snd (Work_loop fmt_bool () (worker_of (\<lambda>c d. Returns None)) []
     [Msg job, CtxDone None]))) = [None] \<and>
   Process fmt_bool () (worker_of (\<lambda>c d. Returns (Some (OtherError ())))) job =
     (Returns (Some (OtherError ())), job\<lparr>calls := [Reject False]\<rparr>) \<and>
   ErrChan (fst (snd (Work_loop fmt_bool () (worker_of (\<lambda>c d. Returns (Some (OtherError ())))) []
     [Msg job, CtxDone None]))) = [Some (OtherError ())]"
proof -
  have c: "calls job = []" by (simp add: job_def)
  have ch: "\<And>f. ErrChan (worker_of f) = []" by (simp add: worker_of_def)
  have a: "Func (worker_of (\<lambda>c d. Returns None)) () job = Returns None"
    by (simp add: worker_of_def)
  have r: "Func (worker_of (\<lambda>c d. Returns (Some (OtherError ())))) () job =
      Returns (Some (OtherError ()))"
    by (simp add: worker_of_def)
  note ta = Process_normal_return [OF a, of fmt_bool "[]" "[]" None]
  from ta have "Process fmt_bool () (worker_of (\<lambda>c d. Returns None)) job =
      (Returns None, job\<lparr>calls := calls job @ [Ack False]\<rparr>)"
    by blast
  moreover from ta
  have "ErrChan (fst (snd (Work_loop fmt_bool () (worker_of (\<lambda>c d. Returns None)) []
      [Msg job, CtxDone None]))) = ErrChan (worker_of (\<lambda>c d. Returns None)) @ [None]"
    by blast
  ultimately
  have 1: "Process fmt_bool () (worker_of (\<lambda>c d. Returns None)) job =
      (Returns None, job\<lparr>calls := [Ack False]\<rparr>) \<and>
    ErrChan (fst (snd (Work_loop fmt_bool () (worker_of (\<lambda>c d. Returns None)) []
      [Msg job, CtxDone None]))) = [None]"
    using c ch by simp
  note tr = Process_normal_return [OF r, of fmt_bool "[]" "[]" None]
  from tr have "Process fmt_bool () (worker_of (\<lambda>c d. Returns (Some (OtherError ())))) job =
      (Returns (Some (OtherError ())), job\<lparr>calls := calls job @ [Reject False]\<rparr>)"
    by blast
  moreover from tr
  have "ErrChan (fst (snd (Work_loop fmt_bool () (worker_of (\<lambda>c d. Returns (Some (OtherError ())))) []
      [Msg job, CtxDone None]))) =
      ErrChan (worker_of (\<lambda>c d. Returns (Some (OtherError ())))) @ [Some (OtherError ())]"
    by blast
  ultimately
  have 2: "Process fmt_bool () (worker_of (\<lambda>c d. Returns (Some (OtherError ())))) job =
      (Returns (Some (OtherError ())), job\<lparr>calls := [Reject False]\<rparr>) \<and>
    ErrChan (fst (snd (Work_loop fmt_bool () (worker_of (\<lambda>c d. Returns (Some (OtherError ())))) []
      [Msg job, CtxDone None]))) = [Some (OtherError ())]"
    using c ch by simp
  from 1 2 show ?thesis by blast
qed

end
